theory Spec2Isabelle
  imports Complex_Main
begin

section \<open>Data exchanged between the recogniser and the page\<close>

text \<open>
  The edge function \<^verbatim>\<open>process-slip\<close> hands the page whatever \<^verbatim>\<open>JSON.parse\<close> returned,
  so its result is a JSON value; an object is the list of its members, with distinct
  keys. JavaScript numbers are idealised as reals: no rounding error, no NaN, no
  infinities.
\<close>

datatype json =
    JNull
  | JBool bool
  | JNum real
  | JStr string
  | JArr "json list"
  | JObj "(string \<times> json) list"

text \<open>
  One entry of \<^verbatim>\<open>data.textElements\<close> as the page reads it (\<^verbatim>\<open>element: any\<close>): the fields the
  recogniser is prompted for. \<^verbatim>\<open>text\<close> is a string and \<^verbatim>\<open>x\<close>, \<^verbatim>\<open>y\<close> are numbers; \<^verbatim>\<open>fontSize\<close>
  is any JSON value, or \<open>None\<close> when the field is missing (\<^verbatim>\<open>undefined\<close>).
\<close>

record element =
  el_text :: string
  el_x :: real
  el_y :: real
  el_fontSize :: "json option"

section \<open>The 2D canvas\<close>

text \<open>
  The browser's canvas is modelled by what the page asks of it: its dimensions, the
  context state the page sets, and the list of drawing commands issued so far, each
  carrying the state it was issued under. Coordinates are passed as given; the bitmap
  keeps its \<open>width \<times> height\<close> whatever is drawn.
\<close>

datatype gradient = LinearGradient real real real real "(real \<times> string) list"

datatype style = Color string | Gradient gradient

datatype path_cmd = Arc real real real real real | MoveTo real real | LineTo real real

datatype draw =
    FillRect style real real real real
  | FillText style string string string real real
  | FillPath style "path_cmd list"
  | StrokePath style real "path_cmd list"

record canvas =
  width :: nat
  height :: nat
  fillStyle :: style
  font :: string
  textAlign :: string
  drawn :: "draw list"
  strokeStyle :: style
  lineWidth :: real
  path :: "path_cmd list"

text \<open>
  The string \<^verbatim>\<open>toDataURL\<close> returns is kept as what determines it: the type asked for
  and the bitmap, that is its size and the commands drawn on it. How the browser writes
  that down (\<^verbatim>\<open>data:,\<close> for a bitmap without pixels or beyond its limits, the encoded
  image otherwise) is the browser's.
\<close>

datatype dataurl = DataURL string nat nat "draw list"

definition createCanvas :: canvas where
  "createCanvas =
     \<lparr>width = 300, height = 150, fillStyle = Color ''#000000'',
      font = ''10px sans-serif'', textAlign = ''start'', drawn = [],
      strokeStyle = Color ''#000000'', lineWidth = 1, path = []\<rparr>"

text \<open>Assigning a dimension clears the bitmap and resets the context state.\<close>

definition set_width :: "nat \<Rightarrow> canvas \<Rightarrow> canvas" where
  "set_width w c = createCanvas\<lparr>width := w, height := height c\<rparr>"

definition set_height :: "nat \<Rightarrow> canvas \<Rightarrow> canvas" where
  "set_height h c = createCanvas\<lparr>width := width c, height := h\<rparr>"

definition createLinearGradient :: "real \<Rightarrow> real \<Rightarrow> real \<Rightarrow> real \<Rightarrow> gradient" where
  "createLinearGradient x0 y0 x1 y1 = LinearGradient x0 y0 x1 y1 []"

fun addColorStop :: "real \<Rightarrow> string \<Rightarrow> gradient \<Rightarrow> gradient" where
  "addColorStop off col (LinearGradient x0 y0 x1 y1 stops) =
     LinearGradient x0 y0 x1 y1 (stops @ [(off, col)])"

definition fillRect :: "real \<Rightarrow> real \<Rightarrow> real \<Rightarrow> real \<Rightarrow> canvas \<Rightarrow> canvas" where
  "fillRect rx ry rw rh c = c\<lparr>drawn := drawn c @ [FillRect (fillStyle c) rx ry rw rh]\<rparr>"

definition fillText :: "string \<Rightarrow> real \<Rightarrow> real \<Rightarrow> canvas \<Rightarrow> canvas" where
  "fillText t tx ty c =
     c\<lparr>drawn := drawn c @ [FillText (fillStyle c) (font c) (textAlign c) t tx ty]\<rparr>"

definition beginPath :: "canvas \<Rightarrow> canvas" where
  "beginPath c = c\<lparr>path := []\<rparr>"

definition arc :: "real \<Rightarrow> real \<Rightarrow> real \<Rightarrow> real \<Rightarrow> real \<Rightarrow> canvas \<Rightarrow> canvas" where
  "arc ax ay r a0 a1 c = c\<lparr>path := path c @ [Arc ax ay r a0 a1]\<rparr>"

definition moveTo :: "real \<Rightarrow> real \<Rightarrow> canvas \<Rightarrow> canvas" where
  "moveTo mx my c = c\<lparr>path := path c @ [MoveTo mx my]\<rparr>"

definition lineTo :: "real \<Rightarrow> real \<Rightarrow> canvas \<Rightarrow> canvas" where
  "lineTo lx ly c = c\<lparr>path := path c @ [LineTo lx ly]\<rparr>"

definition fill :: "canvas \<Rightarrow> canvas" where
  "fill c = c\<lparr>drawn := drawn c @ [FillPath (fillStyle c) (path c)]\<rparr>"

definition stroke :: "canvas \<Rightarrow> canvas" where
  "stroke c = c\<lparr>drawn := drawn c @ [StrokePath (strokeStyle c) (lineWidth c) (path c)]\<rparr>"

definition toDataURL :: "string \<Rightarrow> canvas \<Rightarrow> dataurl" where
  "toDataURL mime c = DataURL mime (width c) (height c) (drawn c)"

section \<open>The world a handler runs in\<close>

text \<open>
  Code of the page can read the clock and a random source at any point. What it would
  read is passed explicitly: \<open>localeDate\<close> is the string that
  \<^verbatim>\<open>new Date().toLocaleDateString("th-TH", ...)\<close> returns with the options of lines
  112--118, \<open>random\<close> what \<^verbatim>\<open>Math.random()\<close> would return.
\<close>

record world =
  localeDate :: string
  random :: real

section \<open>The themed background (part\_000, lines 490--501)\<close>

text \<open>
  \<^verbatim>\<open>for (let i = 0; i < canvas.height; i += 20) ctx.fillRect(0, i, canvas.width, 1)\<close>
\<close>

function textureLines :: "nat \<Rightarrow> canvas \<Rightarrow> canvas" where
  "textureLines i c =
     (if i < height c then textureLines (i + 20) (fillRect 0 (real i) (real (width c)) 1 c)
      else c)"
  by pat_completeness auto
termination
  by (relation "measure (\<lambda>(i, c). height c - i)") (auto simp: fillRect_def)

definition renderBackground :: "canvas \<Rightarrow> canvas" where
  "renderBackground c =
     (let gradient =
            addColorStop 1 ''#c026d3''
              (addColorStop 0 ''#7c3aed''
                (createLinearGradient 0 0 (real (width c)) (real (height c))));
          c1 = c\<lparr>fillStyle := Gradient gradient\<rparr>;
          c2 = fillRect 0 0 (real (width c1)) (real (height c1)) c1;
          c3 = c2\<lparr>fillStyle := Color ''rgba(0, 0, 0, 0.05)''\<rparr>
      in textureLines 0 c3)"

section \<open>The fixed-template revision: background and date (part\_000, lines 77--91, 109--119)\<close>

text \<open>
  The other revision of the page draws a fixed 800 by 1200 template. Its background
  is the same gradient-and-lines construction with other colours; among its labels is
  the current date, read from the clock (\<open>currentDate\<close> is the string that
  \<^verbatim>\<open>new Date().toLocaleDateString("th-TH", ...)\<close> returned).
\<close>

definition renderTemplateBackground :: "canvas \<Rightarrow> canvas" where
  "renderTemplateBackground c =
     (let c0 = set_height 1200 (set_width 800 c);
          gradient =
            addColorStop 1 ''#7b3897''
              (addColorStop 0 ''#a8305a''
                (createLinearGradient 0 0 (real (width c0)) (real (height c0))));
          c1 = c0\<lparr>fillStyle := Gradient gradient\<rparr>;
          c2 = fillRect 0 0 (real (width c1)) (real (height c1)) c1;
          c3 = c2\<lparr>fillStyle := Color ''rgba(0, 0, 0, 0.05)''\<rparr>
      in textureLines 0 c3)"

definition drawDate :: "string \<Rightarrow> canvas \<Rightarrow> canvas" where
  "drawDate currentDate c =
     (let c1 = c\<lparr>fillStyle := Color ''white''\<rparr>;
          c2 = c1\<lparr>font := ''18px Arial''\<rparr>
      in fillText currentDate (real (width c2) / 2) 200 c2)"

section \<open>The compositor (part\_000, lines 503--515)\<close>

definition digit :: "nat \<Rightarrow> char" where
  "digit d = ''0123456789'' ! d"

fun string_of_nat :: "nat \<Rightarrow> string" where
  "string_of_nat n =
     (if n < 10 then [digit n] else string_of_nat (n div 10) @ [digit (n mod 10)])"

text \<open>
  \<^verbatim>\<open>element.fontSize === "large" ? 24 : element.fontSize === "small" ? 12 : 16\<close>;
  strict equality holds only for the string itself.
\<close>

definition fontSizePx :: "json option \<Rightarrow> nat" where
  "fontSizePx v =
     (if v = Some (JStr ''large'') then 24
      else if v = Some (JStr ''small'') then 12
      else 16)"

definition fontOf :: "element \<Rightarrow> string" where
  "fontOf e = string_of_nat (fontSizePx (el_fontSize e)) @ ''px Arial, sans-serif''"

definition elementX :: "element \<Rightarrow> canvas \<Rightarrow> real" where
  "elementX e c = (el_x e / 100) * real (width c)"

definition elementY :: "element \<Rightarrow> canvas \<Rightarrow> real" where
  "elementY e c = (el_y e / 100) * real (height c)"

definition drawElement :: "element \<Rightarrow> canvas \<Rightarrow> canvas" where
  "drawElement e c =
     (let c1 = c\<lparr>font := fontOf e\<rparr>
      in fillText (el_text e) (elementX e c1) (elementY e c1) c1)"

text \<open>
  \<open>textElements\<close> is \<open>None\<close> when \<^verbatim>\<open>data.textElements && Array.isArray(data.textElements)\<close>
  is false; \<^verbatim>\<open>forEach\<close> visits the array in order.
\<close>

definition composite :: "element list option \<Rightarrow> canvas \<Rightarrow> canvas" where
  "composite textElements c =
     (let c1 = c\<lparr>fillStyle := Color ''white''\<rparr>;
          c2 = c1\<lparr>textAlign := ''center''\<rparr>
      in case textElements of
           None \<Rightarrow> c2
         | Some es \<Rightarrow> fold drawElement es c2)"

section \<open>The orchestrator \<^verbatim>\<open>processImage\<close> (part\_000, lines 468--534)\<close>

text \<open>
  What \<^verbatim>\<open>processImage\<close> does to the page is the sequence of its calls to the state
  setters, the console and the toast. A toast is title, description and variant.
\<close>

datatype effect =
    SetIsProcessing bool
  | SetProcessedImage dataurl
  | ConsoleError string
  | Toast string string "string option"

text \<open>
  The outcome of \<^verbatim>\<open>supabase.functions.invoke\<close>: an error with its message, or the
  data with its \<open>textElements\<close>.
\<close>

datatype invoke_result = InvokeError string | InvokeData "element list option"

text \<open>
  The \<^verbatim>\<open>img.onload\<close> handler, run in the world \<open>wd\<close> for an image of \<open>w\<close> by \<open>h\<close>
  pixels. Nothing in lines 486--522 reads the clock or the random source.
\<close>

definition onload ::
  "world \<Rightarrow> canvas \<Rightarrow> nat \<Rightarrow> nat \<Rightarrow> element list option \<Rightarrow> effect list" where
  "onload wd canvas0 w h textElements =
     (let c0 = set_height h (set_width w canvas0);
          c1 = renderBackground c0;
          c2 = composite textElements c1
      in [SetProcessedImage (toDataURL ''image/png'' c2),
          Toast ''Success!'' ''Your slip has been processed'' None])"

text \<open>The \<^verbatim>\<open>catch\<close> and \<^verbatim>\<open>finally\<close> blocks, for a thrown error with message \<open>msg\<close>.\<close>

definition catch_finally :: "string \<Rightarrow> effect list" where
  "catch_finally msg =
     [ConsoleError msg,
      Toast ''Processing failed''
        (if msg = [] then ''Failed to process image. Please try again.'' else msg)
        (Some ''destructive''),
      SetIsProcessing False]"

text \<open>
  \<open>selectedImage\<close> is the page state (a data URL or \<^verbatim>\<open>null\<close>), \<open>invoked\<close> the outcome of
  the recognition request, \<open>ctx\<close> whether \<^verbatim>\<open>canvas.getContext("2d")\<close> returned a
  context, and \<open>loaded\<close> the natural size of the image once the browser has decoded
  it, or \<open>None\<close> when it cannot be decoded and \<^verbatim>\<open>onload\<close> never fires. The
  \<^verbatim>\<open>try\<close> block ends once \<^verbatim>\<open>img.src\<close> is assigned; the handler runs later, in the
  world \<open>wd\<close>.
\<close>

definition processImage ::
  "world \<Rightarrow> string option \<Rightarrow> invoke_result \<Rightarrow> bool \<Rightarrow> (nat \<times> nat) option \<Rightarrow>
   effect list" where
  "processImage wd selectedImage invoked ctx loaded =
     (if selectedImage = None \<or> selectedImage = Some [] then []
      else SetIsProcessing True #
        (case invoked of
           InvokeError msg \<Rightarrow> catch_finally msg
         | InvokeData textElements \<Rightarrow>
             if \<not> ctx then catch_finally ''Canvas not supported''
             else SetIsProcessing False #
               (case loaded of
                  None \<Rightarrow> []
                | Some (w, h) \<Rightarrow> onload wd createCanvas w h textElements)))"

text \<open>The images a run sets, in order.\<close>

fun outputs :: "effect list \<Rightarrow> dataurl list" where
  "outputs [] = []"
| "outputs (SetProcessedImage u # es) = u # outputs es"
| "outputs (_ # es) = outputs es"

section \<open>The fixed-template handler (part\_000, lines 58--223)\<close>

text \<open>
  The labels of the template that are not ASCII, as their UTF-8 bytes, in the order of
  their source lines 102, 133, 136, 141, 145, 148, 164, 171, 174, 180, 182 and 204.
\<close>

definition label_leaf :: string where
  "label_leaf =
     [CHR 0xF0, CHR 0x9F, CHR 0x8C, CHR 0xBF]"

definition label_from :: string where
  "label_from =
     [CHR 0xE0, CHR 0xB8, CHR 0x88, CHR 0xE0, CHR 0xB8, CHR 0xB2, CHR 0xE0, CHR 0xB8,
      CHR 0x81] @ '' (From)''"

definition label_sender :: string where
  "label_sender =
     [CHR 0xE0, CHR 0xB8, CHR 0x9C, CHR 0xE0, CHR 0xB8, CHR 0xB9, CHR 0xE0, CHR 0xB9,
      CHR 0x89, CHR 0xE0, CHR 0xB8, CHR 0xAA, CHR 0xE0, CHR 0xB9, CHR 0x88, CHR 0xE0,
      CHR 0xB8, CHR 0x87] @ '' (Sender)''"

definition label_arrow :: string where
  "label_arrow =
     [CHR 0xE2, CHR 0x86, CHR 0x92]"

definition label_to :: string where
  "label_to =
     [CHR 0xE0, CHR 0xB8, CHR 0x96, CHR 0xE0, CHR 0xB8, CHR 0xB6, CHR 0xE0, CHR 0xB8,
      CHR 0x87] @ '' (To)''"

definition label_receiver :: string where
  "label_receiver =
     [CHR 0xE0, CHR 0xB8, CHR 0x9C, CHR 0xE0, CHR 0xB8, CHR 0xB9, CHR 0xE0, CHR 0xB9,
      CHR 0x89, CHR 0xE0, CHR 0xB8, CHR 0xA3, CHR 0xE0, CHR 0xB8, CHR 0xB1, CHR 0xE0,
      CHR 0xB8, CHR 0x9A] @ '' (Receiver)''"

definition label_reference :: string where
  "label_reference =
     [CHR 0xE0, CHR 0xB9, CHR 0x80, CHR 0xE0, CHR 0xB8, CHR 0xA5, CHR 0xE0, CHR 0xB8,
      CHR 0x82, CHR 0xE0, CHR 0xB8, CHR 0x97, CHR 0xE0, CHR 0xB8, CHR 0xB5, CHR 0xE0,
      CHR 0xB9, CHR 0x88, CHR 0xE0, CHR 0xB8, CHR 0xAD, CHR 0xE0, CHR 0xB9, CHR 0x89,
      CHR 0xE0, CHR 0xB8, CHR 0xB2, CHR 0xE0, CHR 0xB8, CHR 0x87, CHR 0xE0, CHR 0xB8,
      CHR 0xAD, CHR 0xE0, CHR 0xB8, CHR 0xB4, CHR 0xE0, CHR 0xB8,
      CHR 0x87] @ '' (Reference)''"

definition label_amount :: string where
  "label_amount =
     [CHR 0xE0, CHR 0xB8, CHR 0x88, CHR 0xE0, CHR 0xB8, CHR 0xB3, CHR 0xE0, CHR 0xB8,
      CHR 0x99, CHR 0xE0, CHR 0xB8, CHR 0xA7, CHR 0xE0, CHR 0xB8, CHR 0x99, CHR 0xE0,
      CHR 0xB9, CHR 0x80, CHR 0xE0, CHR 0xB8, CHR 0x87, CHR 0xE0, CHR 0xB8, CHR 0xB4,
      CHR 0xE0, CHR 0xB8, CHR 0x99] @ '' (Amount)''"

definition label_amount_value :: string where
  "label_amount_value =
     [CHR 0xE0, CHR 0xB8, CHR 0xBF] @ '' X,XXX.XX''"

definition label_fee :: string where
  "label_fee =
     [CHR 0xE0, CHR 0xB8, CHR 0x84, CHR 0xE0, CHR 0xB9, CHR 0x88, CHR 0xE0, CHR 0xB8,
      CHR 0xB2, CHR 0xE0, CHR 0xB8, CHR 0x98, CHR 0xE0, CHR 0xB8, CHR 0xA3, CHR 0xE0,
      CHR 0xB8, CHR 0xA3, CHR 0xE0, CHR 0xB8, CHR 0xA1, CHR 0xE0, CHR 0xB9, CHR 0x80,
      CHR 0xE0, CHR 0xB8, CHR 0x99, CHR 0xE0, CHR 0xB8, CHR 0xB5, CHR 0xE0, CHR 0xB8,
      CHR 0xA2, CHR 0xE0, CHR 0xB8, CHR 0xA1] @ '' (Fee)''"

definition label_fee_value :: string where
  "label_fee_value =
     [CHR 0xE0, CHR 0xB8, CHR 0xBF] @ '' 0.00''"

definition label_scan :: string where
  "label_scan =
     [CHR 0xE0, CHR 0xB8, CHR 0xAA, CHR 0xE0, CHR 0xB9, CHR 0x81, CHR 0xE0, CHR 0xB8,
      CHR 0x81, CHR 0xE0, CHR 0xB8, CHR 0x99, CHR 0xE0, CHR 0xB8, CHR 0x95, CHR 0xE0,
      CHR 0xB8, CHR 0xA3, CHR 0xE0, CHR 0xB8, CHR 0xA7, CHR 0xE0, CHR 0xB8, CHR 0x88,
      CHR 0xE0, CHR 0xB8, CHR 0xAA, CHR 0xE0, CHR 0xB8, CHR 0xAD, CHR 0xE0, CHR 0xB8,
      CHR 0x9A, CHR 0xE0, CHR 0xB8, CHR 0xAA, CHR 0xE0, CHR 0xB8, CHR 0xA5, CHR 0xE0,
      CHR 0xB8, CHR 0xB4, CHR 0xE0, CHR 0xB8, CHR 0x9B]"

definition set_fillStyle :: "style \<Rightarrow> canvas \<Rightarrow> canvas" where
  "set_fillStyle s c = c\<lparr>fillStyle := s\<rparr>"

definition set_strokeStyle :: "style \<Rightarrow> canvas \<Rightarrow> canvas" where
  "set_strokeStyle s c = c\<lparr>strokeStyle := s\<rparr>"

definition set_lineWidth :: "real \<Rightarrow> canvas \<Rightarrow> canvas" where
  "set_lineWidth lw c = c\<lparr>lineWidth := lw\<rparr>"

definition set_font :: "string \<Rightarrow> canvas \<Rightarrow> canvas" where
  "set_font f c = c\<lparr>font := f\<rparr>"

definition set_textAlign :: "string \<Rightarrow> canvas \<Rightarrow> canvas" where
  "set_textAlign a c = c\<lparr>textAlign := a\<rparr>"

text \<open>
  Lines 93--204, statement by statement in source order; \<open>yPos0\<close> to \<open>yPos4\<close> are the
  successive values of the variable \<^verbatim>\<open>yPos\<close>. The date is read from the clock at line
  112 and drawn at line 119.
\<close>

definition drawTemplate :: "string \<Rightarrow> canvas \<Rightarrow> canvas" where
  "drawTemplate currentDate c0 =
     (let yPos0 = 400; yPos1 = yPos0 + 80; yPos2 = yPos1 + 100; yPos3 = yPos2 + 80;
          yPos4 = yPos3 + 50
      in fold (\<lambda>statement. statement)
        [set_fillStyle (Color ''#c13832''),
         beginPath,
         (\<lambda>c. arc (real (width c) / 2) 80 40 0 (pi * 2) c),
         fill,
         set_fillStyle (Color ''#4caf50''),
         set_font ''bold 40px Arial'',
         set_textAlign ''center'',
         (\<lambda>c. fillText label_leaf (real (width c) / 2) 95 c),
         set_fillStyle (Color ''#f4d03f''),
         set_font ''bold 28px Arial'',
         (\<lambda>c. fillText ''KASIKORN BANK'' (real (width c) / 2) 160 c),
         drawDate currentDate,
         set_strokeStyle (Color ''rgba(255, 255, 255, 0.3)''),
         set_lineWidth 1,
         beginPath,
         moveTo 50 230,
         (\<lambda>c. lineTo (real (width c) - 50) 230 c),
         stroke,
         set_fillStyle (Color ''white''),
         set_font ''20px Arial'',
         set_textAlign ''left'',
         fillText label_from 60 280,
         set_font ''bold 24px Arial'',
         fillText label_sender 60 315,
         set_font ''30px Arial'',
         set_textAlign ''center'',
         (\<lambda>c. fillText label_arrow (real (width c) / 2) 315 c),
         set_font ''20px Arial'',
         set_textAlign ''right'',
         (\<lambda>c. fillText label_to (real (width c) - 60) 280 c),
         set_font ''bold 24px Arial'',
         (\<lambda>c. fillText label_receiver (real (width c) - 60) 315 c),
         set_strokeStyle (Color ''rgba(255, 255, 255, 0.3)''),
         beginPath,
         moveTo 50 350,
         (\<lambda>c. lineTo (real (width c) - 50) 350 c),
         stroke,
         set_fillStyle (Color ''white''),
         set_font ''20px Arial'',
         set_textAlign ''left'',
         fillText label_reference 60 yPos0,
         set_font ''bold 22px Arial'',
         fillText ''XXXXXXXXXX'' 60 (yPos0 + 30),
         set_font ''20px Arial'',
         fillText label_amount 60 yPos1,
         set_fillStyle (Color ''#f4d03f''),
         set_font ''bold 36px Arial'',
         fillText label_amount_value 60 (yPos1 + 40),
         set_fillStyle (Color ''white''),
         set_font ''20px Arial'',
         fillText label_fee 60 yPos2,
         set_font ''bold 22px Arial'',
         fillText label_fee_value 60 (yPos2 + 30),
         set_strokeStyle (Color ''rgba(255, 255, 255, 0.3)''),
         beginPath,
         moveTo 50 yPos3,
         (\<lambda>c. lineTo (real (width c) - 50) yPos3 c),
         stroke,
         set_fillStyle (Color ''white''),
         (\<lambda>c. fillRect (real (width c) / 2 - 100) yPos4 200 200 c),
         set_fillStyle (Color ''#a8305a''),
         set_font ''20px Arial'',
         set_textAlign ''center'',
         (\<lambda>c. fillText ''QR CODE'' (real (width c) / 2) (yPos4 + 110) c),
         set_fillStyle (Color ''rgba(255, 255, 255, 0.7)''),
         set_font ''16px Arial'',
         (\<lambda>c. fillText label_scan (real (width c) / 2) (yPos4 + 250) c)]
        c0)"

text \<open>
  The \<^verbatim>\<open>img.onload\<close> handler of this revision (lines 76--211), run in the world \<open>wd\<close>:
  the size of the image is not used, and neither are the recognised fragments.
\<close>

definition onload_template :: "world \<Rightarrow> canvas \<Rightarrow> effect list" where
  "onload_template wd canvas0 =
     (let c1 = renderTemplateBackground canvas0;
          c2 = drawTemplate (localeDate wd) c1
      in [SetProcessedImage (toDataURL ''image/png'' c2),
          Toast ''Success!'' ''Your slip has been processed'' None])"

text \<open>\<^verbatim>\<open>processImage\<close> of this revision: the same frame around the other handler.\<close>

definition processImage_template ::
  "world \<Rightarrow> string option \<Rightarrow> invoke_result \<Rightarrow> bool \<Rightarrow> (nat \<times> nat) option \<Rightarrow>
   effect list" where
  "processImage_template wd selectedImage invoked ctx loaded =
     (if selectedImage = None \<or> selectedImage = Some [] then []
      else SetIsProcessing True #
        (case invoked of
           InvokeError msg \<Rightarrow> catch_finally msg
         | InvokeData textElements \<Rightarrow>
             if \<not> ctx then catch_finally ''Canvas not supported''
             else SetIsProcessing False #
               (case loaded of
                  None \<Rightarrow> []
                | Some (w, h) \<Rightarrow> onload_template wd createCanvas)))"

text \<open>
  Two worlds a day apart: the clock's string is for day 1 and for day 2 of January 2568
  (Buddhist era), the month written in Thai.
\<close>

definition january :: string where
  "january =
     [CHR 0xE0, CHR 0xB8, CHR 0xA1, CHR 0xE0, CHR 0xB8, CHR 0x81, CHR 0xE0, CHR 0xB8,
      CHR 0xA3, CHR 0xE0, CHR 0xB8, CHR 0xB2, CHR 0xE0, CHR 0xB8, CHR 0x84, CHR 0xE0,
      CHR 0xB8, CHR 0xA1]"

definition world_day1 :: world where
  "world_day1 = \<lparr>localeDate = ''1 '' @ january @ '' 2568 10:00'', random = 0\<rparr>"

definition world_day2 :: world where
  "world_day2 = \<lparr>localeDate = ''2 '' @ january @ '' 2568 10:00'', random = 0\<rparr>"

section \<open>The edge function \<^verbatim>\<open>process-slip\<close> (index.ts, lines 69--98)\<close>










section \<open>The fragment data model as the specification words it\<close>



section \<open>Canvas primitives and the texture loop\<close>

lemma fillRect_fields [simp]:
  "width (fillRect rx ry rw rh c) = width c"
  "height (fillRect rx ry rw rh c) = height c"
  "fillStyle (fillRect rx ry rw rh c) = fillStyle c"
  "font (fillRect rx ry rw rh c) = font c"
  "textAlign (fillRect rx ry rw rh c) = textAlign c"
  "drawn (fillRect rx ry rw rh c) = drawn c @ [FillRect (fillStyle c) rx ry rw rh]"
  by (simp_all add: fillRect_def)

lemma fillText_fields [simp]:
  "width (fillText t tx ty c) = width c"
  "height (fillText t tx ty c) = height c"
  "fillStyle (fillText t tx ty c) = fillStyle c"
  "font (fillText t tx ty c) = font c"
  "textAlign (fillText t tx ty c) = textAlign c"
  "drawn (fillText t tx ty c) =
     drawn c @ [FillText (fillStyle c) (font c) (textAlign c) t tx ty]"
  by (simp_all add: fillText_def)

lemma set_size_fields [simp]:
  "width (set_height h (set_width w c)) = w"
  "height (set_height h (set_width w c)) = h"
  "drawn (set_height h (set_width w c)) = []"
  by (simp_all add: set_height_def set_width_def createCanvas_def)

declare textureLines.simps [simp del]

lemma line_count_step:
  "i < h \<Longrightarrow> ((h::nat) + 19 - i) div 20 = Suc ((h + 19 - (i + 20)) div 20)"
proof -
  assume "i < h"
  then have "h + 19 - i = (h + 19 - (i + 20)) + 20" by linarith
  then have "(h + 19 - i) div 20 = ((h + 19 - (i + 20)) + 20) div 20" by (rule arg_cong)
  also have "\<dots> = Suc ((h + 19 - (i + 20)) div 20)"
    by (rule div_add_self2 [THEN trans]) simp_all
  finally show ?thesis .
qed

text \<open>
  The loop changes nothing but the bitmap: it issues one line per multiple-of-20 offset
  below the height, in order.
\<close>

lemma textureLines_eq:
  "textureLines i c =
     c\<lparr>drawn := drawn c @
        map (\<lambda>k. FillRect (fillStyle c) 0 (real (i + 20 * k)) (real (width c)) 1)
          [0..<(height c + 19 - i) div 20]\<rparr>"
proof (induction i c rule: textureLines.induct)
  case (1 i c)
  show ?case
  proof (cases "i < height c")
    case True
    define n where "n = (height c + 19 - (i + 20)) div 20"
    have n: "(height c + 19 - i) div 20 = Suc n"
      using True unfolding n_def by (rule line_count_step)
    have shift:
      "map (\<lambda>k. FillRect (fillStyle c) 0 (real (i + 20 * k)) (real (width c)) 1) [0..<Suc n] =
         FillRect (fillStyle c) 0 (real i) (real (width c)) 1 #
         map (\<lambda>k. FillRect (fillStyle c) 0 (real (i + 20 + 20 * k)) (real (width c)) 1) [0..<n]"
      unfolding upt_conv_Cons [OF zero_less_Suc] map_Suc_upt [symmetric]
      by (simp add: add.assoc)
    have "textureLines i c = textureLines (i + 20) (fillRect 0 (real i) (real (width c)) 1 c)"
      using True by (subst textureLines.simps) simp
    also have "\<dots> =
        c\<lparr>drawn := (drawn c @ [FillRect (fillStyle c) 0 (real i) (real (width c)) 1]) @
          map (\<lambda>k. FillRect (fillStyle c) 0 (real (i + 20 + 20 * k)) (real (width c)) 1)
            [0..<n]\<rparr>"
      using 1 [OF True] by (simp add: n_def fillRect_def)
    finally show ?thesis unfolding n shift by simp
  next
    case False
    then have "(height c + 19 - i) div 20 = 0" by simp
    with False show ?thesis by (subst textureLines.simps) simp
  qed
qed

lemma textureLines_fields [simp]:
  "width (textureLines i c) = width c"
  "height (textureLines i c) = height c"
  "fillStyle (textureLines i c) = fillStyle c"
  "font (textureLines i c) = font c"
  "textAlign (textureLines i c) = textAlign c"
  by (simp_all add: textureLines_eq)

lemma textureLines_drawn:
  "drawn (textureLines i c) =
     drawn c @ map (\<lambda>k. FillRect (fillStyle c) 0 (real (i + 20 * k)) (real (width c)) 1)
       [0..<(height c + 19 - i) div 20]"
  by (simp add: textureLines_eq)

section \<open>Background and compositor in closed form\<close>

lemma renderBackground_size [simp]:
  "width (renderBackground c) = width c" "height (renderBackground c) = height c"
  by (simp_all add: renderBackground_def Let_def)

lemma renderBackground_drawn:
  "drawn (renderBackground c) =
     drawn c @
     FillRect (Gradient (LinearGradient 0 0 (real (width c)) (real (height c))
                 [(0, ''#7c3aed''), (1, ''#c026d3'')]))
       0 0 (real (width c)) (real (height c)) #
     map (\<lambda>k. FillRect (Color ''rgba(0, 0, 0, 0.05)'') 0 (real (20 * k)) (real (width c)) 1)
       [0..<(height c + 19) div 20]"
  by (simp add: renderBackground_def Let_def textureLines_drawn createLinearGradient_def)

lemma renderTemplateBackground_size [simp]:
  "width (renderTemplateBackground c) = 800" "height (renderTemplateBackground c) = 1200"
  by (simp_all add: renderTemplateBackground_def Let_def)

lemma renderTemplateBackground_drawn:
  "drawn (renderTemplateBackground c) =
     FillRect (Gradient (LinearGradient 0 0 800 1200 [(0, ''#a8305a''), (1, ''#7b3897'')]))
       0 0 800 1200 #
     map (\<lambda>k. FillRect (Color ''rgba(0, 0, 0, 0.05)'') 0 (real (20 * k)) 800 1) [0..<60]"
  by (simp add: renderTemplateBackground_def Let_def textureLines_drawn createLinearGradient_def)

lemma set_size_eq: "set_height h (set_width w c) = createCanvas\<lparr>width := w, height := h\<rparr>"
  by (simp add: set_height_def set_width_def createCanvas_def)

lemma drawElement_fields [simp]:
  "width (drawElement e c) = width c" "height (drawElement e c) = height c"
  "fillStyle (drawElement e c) = fillStyle c" "textAlign (drawElement e c) = textAlign c"
  "font (drawElement e c) = fontOf e"
  "drawn (drawElement e c) =
     drawn c @ [FillText (fillStyle c) (fontOf e) (textAlign c) (el_text e)
                  (el_x e / 100 * real (width c)) (el_y e / 100 * real (height c))]"
  by (simp_all add: drawElement_def Let_def elementX_def elementY_def)

lemma fold_drawElement_keeps:
  "width (fold drawElement es c) = width c \<and> height (fold drawElement es c) = height c \<and>
   fillStyle (fold drawElement es c) = fillStyle c \<and>
   textAlign (fold drawElement es c) = textAlign c"
  by (induction es arbitrary: c) simp_all

lemma fold_drawElement_drawn:
  "drawn (fold drawElement es c) =
     drawn c @ map (\<lambda>e. FillText (fillStyle c) (fontOf e) (textAlign c) (el_text e)
                  (el_x e / 100 * real (width c)) (el_y e / 100 * real (height c))) es"
proof (induction es arbitrary: c)
  case Nil
  show ?case by simp
next
  case (Cons e es)
  show ?case by (simp add: Cons.IH)
qed

lemma composite_size [simp]:
  "width (composite t c) = width c" "height (composite t c) = height c"
  by (cases t; simp add: composite_def Let_def fold_drawElement_keeps)+

lemma composite_drawn:
  "drawn (composite (Some es) c) =
     drawn c @ map (\<lambda>e. FillText (Color ''white'') (fontOf e) ''center'' (el_text e)
                  (el_x e / 100 * real (width c)) (el_y e / 100 * real (height c))) es"
  by (simp add: composite_def Let_def fold_drawElement_drawn)

lemma composite_None_drawn: "drawn (composite None c) = drawn c"
  by (simp add: composite_def Let_def)


section \<open>Paths of \<^verbatim>\<open>processImage\<close>\<close>

text \<open>
  A failure thrown inside the \<^verbatim>\<open>try\<close> block (the recognition request, the missing 2D
  context) reaches the \<^verbatim>\<open>catch\<close>: it is logged, a destructive toast is shown and no
  image is set.
\<close>

lemma processImage_caught_failures:
  "processImage wd (Some (ch # src)) (InvokeError msg) ctx loaded =
     [SetIsProcessing True, ConsoleError msg,
      Toast ''Processing failed''
        (if msg = [] then ''Failed to process image. Please try again.'' else msg)
        (Some ''destructive''),
      SetIsProcessing False] \<and>
   processImage wd (Some (ch # src)) (InvokeData t) False loaded =
     [SetIsProcessing True, ConsoleError ''Canvas not supported'',
      Toast ''Processing failed'' ''Canvas not supported'' (Some ''destructive''),
      SetIsProcessing False]"
  by (simp add: processImage_def catch_finally_def)

text \<open>
  On the one path that sets an image, it is set once, after all drawing, to the encoding
  of the finished canvas.
\<close>

lemma processImage_success:
  "processImage wd (Some (ch # src)) (InvokeData t) True (Some (w, h)) =
     [SetIsProcessing True, SetIsProcessing False,
      SetProcessedImage (toDataURL ''image/png''
        (composite t (renderBackground (set_height h (set_width w createCanvas))))),
      Toast ''Success!'' ''Your slip has been processed'' None]"
  by (simp add: processImage_def onload_def Let_def del: set_size_fields)

text \<open>
  So a run sets either no image or exactly one, the encoding of the finished canvas:
  nothing partially drawn is ever delivered.
\<close>

lemma processImage_outputs:
  "outputs (processImage wd sel res ctx loaded) = [] \<or>
   (\<exists>t w h. res = InvokeData t \<and> loaded = Some (w, h) \<and>
      outputs (processImage wd sel res ctx loaded) =
        [toDataURL ''image/png''
           (composite t (renderBackground (set_height h (set_width w createCanvas))))])"
  by (cases res; cases loaded)
    (auto simp: processImage_def catch_finally_def onload_def Let_def simp del: set_size_fields)

section \<open>The fixed template in closed form\<close>

lemma drawDate_drawn:
  "drawn (drawDate currentDate c) =
     drawn c @ [FillText (Color ''white'') ''18px Arial'' (textAlign c) currentDate
                  (real (width c) / 2) 200]"
  by (simp add: drawDate_def Let_def)

lemmas canvas_calls =
  set_fillStyle_def set_strokeStyle_def set_lineWidth_def set_font_def set_textAlign_def
  beginPath_def arc_def moveTo_def lineTo_def fill_def stroke_def fillText_def fillRect_def
  drawDate_def

text \<open>
  What the template draws over its background: 21 commands, of which the fourth is the
  date label, the only one that is not a constant of the code.
\<close>

lemma drawTemplate_drawn:
  "drawn (drawTemplate currentDate c) =
     drawn c @
     [FillPath (Color ''#c13832'') [Arc (real (width c) / 2) 80 40 0 (pi * 2)],
      FillText (Color ''#4caf50'') ''bold 40px Arial'' ''center'' label_leaf
        (real (width c) / 2) 95,
      FillText (Color ''#f4d03f'') ''bold 28px Arial'' ''center'' ''KASIKORN BANK''
        (real (width c) / 2) 160,
      FillText (Color ''white'') ''18px Arial'' ''center'' currentDate (real (width c) / 2) 200,
      StrokePath (Color ''rgba(255, 255, 255, 0.3)'') 1
        [MoveTo 50 230, LineTo (real (width c) - 50) 230],
      FillText (Color ''white'') ''20px Arial'' ''left'' label_from 60 280,
      FillText (Color ''white'') ''bold 24px Arial'' ''left'' label_sender 60 315,
      FillText (Color ''white'') ''30px Arial'' ''center'' label_arrow (real (width c) / 2) 315,
      FillText (Color ''white'') ''20px Arial'' ''right'' label_to (real (width c) - 60) 280,
      FillText (Color ''white'') ''bold 24px Arial'' ''right'' label_receiver
        (real (width c) - 60) 315,
      StrokePath (Color ''rgba(255, 255, 255, 0.3)'') 1
        [MoveTo 50 350, LineTo (real (width c) - 50) 350],
      FillText (Color ''white'') ''20px Arial'' ''left'' label_reference 60 400,
      FillText (Color ''white'') ''bold 22px Arial'' ''left'' ''XXXXXXXXXX'' 60 430,
      FillText (Color ''white'') ''20px Arial'' ''left'' label_amount 60 480,
      FillText (Color ''#f4d03f'') ''bold 36px Arial'' ''left'' label_amount_value 60 520,
      FillText (Color ''white'') ''20px Arial'' ''left'' label_fee 60 580,
      FillText (Color ''white'') ''bold 22px Arial'' ''left'' label_fee_value 60 610,
      StrokePath (Color ''rgba(255, 255, 255, 0.3)'') 1
        [MoveTo 50 660, LineTo (real (width c) - 50) 660],
      FillRect (Color ''white'') (real (width c) / 2 - 100) 710 200 200,
      FillText (Color ''#a8305a'') ''20px Arial'' ''center'' ''QR CODE'' (real (width c) / 2) 820,
      FillText (Color ''rgba(255, 255, 255, 0.7)'') ''16px Arial'' ''center'' label_scan
        (real (width c) / 2) 960]"
  by (simp add: drawTemplate_def Let_def canvas_calls)

lemma drawTemplate_size [simp]:
  "width (drawTemplate currentDate c) = width c"
  "height (drawTemplate currentDate c) = height c"
  by (simp_all add: drawTemplate_def Let_def canvas_calls)

text \<open>The date label is the 65th command of the finished template.\<close>

lemma onload_template_date:
  "outputs (onload_template wd c) = [DataURL m tw th cmds] \<Longrightarrow>
   cmds ! 64 = FillText (Color ''white'') ''18px Arial'' ''center'' (localeDate wd) 400 200"
  by (auto simp: onload_template_def Let_def toDataURL_def drawTemplate_drawn
      renderTemplateBackground_drawn nth_append nth_Cons')

lemma half_not_int: "(801 / 2 :: real) \<notin> \<int>"
proof
  assume "(801 / 2 :: real) \<in> \<int>"
  then obtain n :: int where "801 / 2 = real_of_int n" by (auto elim: Ints_cases)
  then have "real_of_int (2 * n) = real_of_int 801" by simp
  then have "2 * n = 801" by (simp only: of_int_eq_iff)
  then show False by presburger
qed

section \<open>The claims\<close>

subsection \<open>C1: pixel position of a fragment\<close>

text \<open>
  Claim C1 as stated has the position rounded to whole pixels,
  \<open>px = round (x / 100 * width)\<close>. The page does not round: for a fragment at
  \<open>x = 50\<close> on a canvas 801 pixels wide it passes \<open>400.5\<close> to \<^verbatim>\<open>fillText\<close>, and the
  rounded value is \<open>401\<close>; the position passed is not a whole number at all. All
  numbers involved are exact in binary floating point.
\<close>

theorem pixel_position_not_rounded_counterexample:
  "elementX \<lparr>el_text = ''TOTAL'', el_x = 50, el_y = 50, el_fontSize = Some (JStr ''large'')\<rparr>
      (set_height 1201 (set_width 801 createCanvas)) = 801 / 2 \<and>
   elementX \<lparr>el_text = ''TOTAL'', el_x = 50, el_y = 50, el_fontSize = Some (JStr ''large'')\<rparr>
      (set_height 1201 (set_width 801 createCanvas)) \<notin> \<int> \<and>
   real_of_int (round (50 / 100 * real (width (set_height 1201 (set_width 801 createCanvas)))))
      = 401 \<and>
   elementX \<lparr>el_text = ''TOTAL'', el_x = 50, el_y = 50, el_fontSize = Some (JStr ''large'')\<rparr>
      (set_height 1201 (set_width 801 createCanvas)) \<noteq>
   real_of_int (round (50 / 100 * real (width (set_height 1201 (set_width 801 createCanvas)))))"
  using half_not_int by (simp add: elementX_def round_def)

text \<open>
  Claim C1, amended: every fragment is drawn at \<open>px = x / 100 * width\<close> and
  \<open>py = y / 100 * height\<close> of the canvas, unrounded; in particular \<open>x = 0, y = 0\<close> gives
  \<open>(0, 0)\<close> and \<open>x = 100, y = 100\<close> gives \<open>(width, height)\<close>.
\<close>

theorem pixel_position_exact:
  "drawn (drawElement e c) =
     drawn c @ [FillText (fillStyle c) (fontOf e) (textAlign c) (el_text e)
                  (el_x e / 100 * real (width c)) (el_y e / 100 * real (height c))] \<and>
   elementX e c = el_x e / 100 * real (width c) \<and>
   elementY e c = el_y e / 100 * real (height c) \<and>
   elementX (e\<lparr>el_x := 0\<rparr>) c = 0 \<and> elementY (e\<lparr>el_y := 0\<rparr>) c = 0 \<and>
   elementX (e\<lparr>el_x := 100\<rparr>) c = real (width c) \<and>
   elementY (e\<lparr>el_y := 100\<rparr>) c = real (height c)"
  by (simp add: elementX_def elementY_def)

subsection \<open>C2: size classes\<close>

text \<open>
  Claim C2: the size class resolves to pixels by small to 12, medium to 16, large to 24,
  strictly increasing, and the font set for a fragment is that many pixels of
  \<^verbatim>\<open>Arial, sans-serif\<close>.
\<close>

theorem fontSize_mapping:
  "fontSizePx (Some (JStr ''small'')) = 12 \<and>
   fontSizePx (Some (JStr ''medium'')) = 16 \<and>
   fontSizePx (Some (JStr ''large'')) = 24 \<and>
   fontSizePx (Some (JStr ''small'')) < fontSizePx (Some (JStr ''medium'')) \<and>
   fontSizePx (Some (JStr ''medium'')) < fontSizePx (Some (JStr ''large'')) \<and>
   font (drawElement e c) = string_of_nat (fontSizePx (el_fontSize e)) @ ''px Arial, sans-serif'' \<and>
   font (drawElement (e\<lparr>el_fontSize := Some (JStr ''small'')\<rparr>) c) = ''12px Arial, sans-serif'' \<and>
   font (drawElement (e\<lparr>el_fontSize := Some (JStr ''medium'')\<rparr>) c) = ''16px Arial, sans-serif'' \<and>
   font (drawElement (e\<lparr>el_fontSize := Some (JStr ''large'')\<rparr>) c) = ''24px Arial, sans-serif''"
  by (simp add: fontSizePx_def fontOf_def digit_def)

subsection \<open>C3: the empty fragment list\<close>

text \<open>
  Claim C3: compositing an empty list leaves the bitmap as the background had it (same
  commands, same dimensions, same encoding), and the handler still delivers the image
  with the success toast: an empty list is not an error.
\<close>

theorem composite_empty_list:
  "drawn (composite (Some []) bg) = drawn bg \<and>
   width (composite (Some []) bg) = width bg \<and>
   height (composite (Some []) bg) = height bg \<and>
   toDataURL mime (composite (Some []) bg) = toDataURL mime bg \<and>
   onload wd c0 w h (Some []) =
     [SetProcessedImage (toDataURL ''image/png'' (renderBackground (set_height h (set_width w c0)))),
      Toast ''Success!'' ''Your slip has been processed'' None]"
  by (simp add: composite_drawn toDataURL_def onload_def Let_def del: set_size_fields)

subsection \<open>C4: what rendering depends on\<close>

text \<open>
  Claim C4 as stated has two runs with the same inputs produce identical buffers, with
  no dependence on the clock. The fixed template stamps the date and time of the run on
  its canvas (lines 110--119): run twice on the same image a day apart, with the same
  answer from the recogniser, it sets two different images.
\<close>

theorem template_reads_clock_counterexample:
  "processImage_template world_day1 (Some ''data:image/png;base64,AAAA'')
     (InvokeData (Some [])) True (Some (800, 1200)) \<noteq>
   processImage_template world_day2 (Some ''data:image/png;base64,AAAA'')
     (InvokeData (Some [])) True (Some (800, 1200))"
proof
  assume same:
    "processImage_template world_day1 (Some ''data:image/png;base64,AAAA'')
       (InvokeData (Some [])) True (Some (800, 1200)) =
     processImage_template world_day2 (Some ''data:image/png;base64,AAAA'')
       (InvokeData (Some [])) True (Some (800, 1200))"
  obtain m tw th cmds where a: "outputs (onload_template world_day1 createCanvas) =
      [DataURL m tw th cmds]"
    by (simp add: onload_template_def Let_def toDataURL_def)
  from same have "onload_template world_day1 createCanvas =
      onload_template world_day2 createCanvas"
    by (simp add: processImage_template_def)
  with a have b: "outputs (onload_template world_day2 createCanvas) = [DataURL m tw th cmds]"
    by simp
  from onload_template_date [OF a] onload_template_date [OF b]
  have "localeDate world_day1 = localeDate world_day2" by simp
  then show False by (simp add: world_day1_def world_day2_def)
qed

text \<open>
  Claim C4, amended: in the fragment-driven revision rendering is a pure function of its
  inputs. Two runs on the same image size and fragment list give the same result
  whatever the clock and the random source yield and whatever canvas the run starts
  from, and in both revisions the gradient-and-lines background is a fixed function of
  the canvas size. The fixed template does not depend on the random source either; its
  dependence on the clock is left to the counterexample above.
\<close>

theorem rendering_ignores_world:
  "onload wd c w h t = onload wd' c' w h t \<and>
   processImage wd sel res ctx loaded = processImage wd' sel res ctx loaded \<and>
   drawn (renderBackground (set_height h (set_width w c))) =
     FillRect (Gradient (LinearGradient 0 0 (real w) (real h)
                 [(0, ''#7c3aed''), (1, ''#c026d3'')])) 0 0 (real w) (real h) #
     map (\<lambda>k. FillRect (Color ''rgba(0, 0, 0, 0.05)'') 0 (real (20 * k)) (real w) 1)
       [0..<(h + 19) div 20] \<and>
   drawn (renderTemplateBackground c) =
     FillRect (Gradient (LinearGradient 0 0 800 1200
                 [(0, ''#a8305a''), (1, ''#7b3897'')])) 0 0 800 1200 #
     map (\<lambda>k. FillRect (Color ''rgba(0, 0, 0, 0.05)'') 0 (real (20 * k)) 800 1) [0..<60] \<and>
   onload_template (wd\<lparr>random := r\<rparr>) c = onload_template wd c'"
proof -
  have sized: "set_height h (set_width w c) = set_height h (set_width w c')"
    by (simp only: set_size_eq)
  have handler: "onload wd c w h t = onload wd' c' w h t"
    unfolding onload_def sized ..
  have inner: "onload wd createCanvas a b x = onload wd' createCanvas a b x" for a b x
    unfolding onload_def ..
  have frame: "processImage wd sel res ctx loaded = processImage wd' sel res ctx loaded"
    unfolding processImage_def inner ..
  have template: "renderTemplateBackground c = renderTemplateBackground c'"
    unfolding renderTemplateBackground_def
    by (simp only: set_size_eq [of 1200 800 c] set_size_eq [of 1200 800 c'])
  have "onload_template (wd\<lparr>random := r\<rparr>) c = onload_template wd c'"
    unfolding onload_template_def template by simp
  with handler frame show ?thesis
    by (simp add: renderBackground_drawn renderTemplateBackground_drawn)
qed

subsection \<open>C5: gradient stops\<close>

text \<open>
  Claim C5 is about a renderer that is given a theme with a list of gradient stops. The
  page's renderer is given none: its two stops are the literals of lines 492--493 (lines
  82--83 in the fixed template), as \<open>renderBackground_drawn\<close> and
  \<open>renderTemplateBackground_drawn\<close> show, and it has no error result. There is no
  input of the code at which the claim could be stated.
\<close>

subsection \<open>C6: failures and output\<close>

text \<open>
  Claim C6 says that every failed stage yields an error and no output. When the
  recognition succeeds and a context exists but the browser cannot decode the selected
  image, \<^verbatim>\<open>onload\<close> never fires: the page sets no image, and it reports nothing either,
  since no \<^verbatim>\<open>onerror\<close> handler is installed and the handler runs outside the \<^verbatim>\<open>try\<close>.
\<close>

theorem processImage_undecodable_image_silent:
  "processImage wd (Some ''data:image/heic;base64,AAAA'') (InvokeData (Some [])) True None =
     [SetIsProcessing True, SetIsProcessing False]"
  by (simp add: processImage_def)

subsection \<open>C7: fragments outside the canvas\<close>

text \<open>
  Claim C7: the compositor issues one \<^verbatim>\<open>fillText\<close> per fragment, in list order, at the
  resolved position, whatever the coordinates are (no bound on \<open>x\<close> or \<open>y\<close> is tested);
  the canvas keeps its dimensions, so what falls outside is clipped by the canvas.
\<close>

theorem composite_draws_every_element:
  "drawn (composite (Some es) c) =
     drawn c @ map (\<lambda>e. FillText (Color ''white'') (fontOf e) ''center'' (el_text e)
                  (el_x e / 100 * real (width c)) (el_y e / 100 * real (height c))) es \<and>
   width (composite (Some es) c) = width c \<and>
   height (composite (Some es) c) = height c"
  by (simp add: composite_drawn)

subsection \<open>C8: the fallback fragment\<close>




subsection \<open>C9: the scenario\<close>

text \<open>
  Claim C9: for an 800 by 1200 image and the single fragment \<^verbatim>\<open>TOTAL\<close> at
  \<open>(50, 50)\<close>, large, the page delivers a PNG of 800 by 1200 whose commands are the
  diagonal gradient from \<^verbatim>\<open>#7c3aed\<close> to \<^verbatim>\<open>#c026d3\<close>, the 60 texture lines, and the text
  \<^verbatim>\<open>TOTAL\<close> centred at \<open>(400, 600)\<close> in 24 pixels.
\<close>

theorem scenario_total:
  "processImage wd (Some ''data:image/png;base64,AAAA'')
     (InvokeData (Some [\<lparr>el_text = ''TOTAL'', el_x = 50, el_y = 50,
                          el_fontSize = Some (JStr ''large'')\<rparr>]))
     True (Some (800, 1200)) =
   [SetIsProcessing True, SetIsProcessing False,
    SetProcessedImage (DataURL ''image/png'' 800 1200
      (FillRect (Gradient (LinearGradient 0 0 800 1200
                   [(0, ''#7c3aed''), (1, ''#c026d3'')])) 0 0 800 1200 #
       map (\<lambda>k. FillRect (Color ''rgba(0, 0, 0, 0.05)'') 0 (real (20 * k)) 800 1) [0..<60] @
       [FillText (Color ''white'') ''24px Arial, sans-serif'' ''center'' ''TOTAL'' 400 600])),
    Toast ''Success!'' ''Your slip has been processed'' None]"
  by (simp add: processImage_def onload_def Let_def toDataURL_def composite_drawn
      renderBackground_drawn fontOf_def fontSizePx_def digit_def)

subsection \<open>C10: medium is the default size\<close>

text \<open>
  Claim C10: a \<^verbatim>\<open>fontSize\<close> that is neither the string \<^verbatim>\<open>large\<close> nor the string
  \<^verbatim>\<open>small\<close> (a missing field, another string, a value of another type) resolves to
  16 pixels.
\<close>

theorem fontSize_defaults_to_medium:
  assumes "v \<noteq> Some (JStr ''large'')" and "v \<noteq> Some (JStr ''small'')"
  shows "fontSizePx v = 16 \<and> fontOf (e\<lparr>el_fontSize := v\<rparr>) = ''16px Arial, sans-serif''"
  using assms by (simp add: fontSizePx_def fontOf_def digit_def)

theorem fontSize_defaults_to_medium_witness:
  "None \<noteq> Some (JStr ''large'') \<and> None \<noteq> Some (JStr ''small'') \<and>
   fontSizePx None = 16 \<and>
   Some (JStr ''huge'') \<noteq> Some (JStr ''large'') \<and>
   Some (JStr ''huge'') \<noteq> Some (JStr ''small'') \<and>
   fontSizePx (Some (JStr ''huge'')) = 16 \<and>
   fontSizePx (Some (JNum 24)) = 16"
  using fontSize_defaults_to_medium [of None]
    fontSize_defaults_to_medium [of "Some (JStr ''huge'')"]
    fontSize_defaults_to_medium [of "Some (JNum 24)"]
  by simp

end
